theory Spec2Isabelle
  imports Complex_Main
begin

section \<open>Strings, errors and the Python runtime\<close>

text \<open>
  A Python \<open>str\<close> is a sequence of Unicode code points, and \<open>len\<close> counts code points.
  Text is therefore a list of code points (\<open>nat\<close>). LanguageTags, script names and the
  short codes of the statistical identifier are ASCII identifiers that the program only
  compares for equality; they are kept as \<open>string\<close>.

  Python floats are represented by the real numbers they denote: the rounding of
  double-precision arithmetic is not part of the model.
\<close>

type_synonym ustring = "nat list"

text \<open>An ASCII literal as text.\<close>

definition ustr :: "string \<Rightarrow> ustring" where
  "ustr s = map of_char s"

datatype error = IndexError | ValueError | EngineFailure

text \<open>
  CPython's \<open>Py_UNICODE_ISSPACE\<close>: the characters that \<open>str.isspace\<close>, \<open>str.strip()\<close>
  and the pattern \<open>\s\<close> of a Unicode regular expression all treat as whitespace.
\<close>

definition isspace :: "nat \<Rightarrow> bool" where
  "isspace c \<longleftrightarrow>
     (0x09 \<le> c \<and> c \<le> 0x0D) \<or> (0x1C \<le> c \<and> c \<le> 0x20) \<or> c = 0x85 \<or> c = 0xA0 \<or>
     c = 0x1680 \<or> (0x2000 \<le> c \<and> c \<le> 0x200A) \<or> c = 0x2028 \<or> c = 0x2029 \<or>
     c = 0x202F \<or> c = 0x205F \<or> c = 0x3000"

text \<open>\<open>str.strip()\<close>: whitespace removed at both ends.\<close>

definition strip :: "ustring \<Rightarrow> ustring" where
  "strip s = rev (dropWhile isspace (rev (dropWhile isspace s)))"

text \<open>\<open>tok.isspace()\<close>: non-empty and every character is whitespace.\<close>

definition str_isspace :: "ustring \<Rightarrow> bool" where
  "str_isspace s \<longleftrightarrow> s \<noteq> [] \<and> list_all isspace s"

text \<open>\<open>re.sub(r"\s+", " ", text)\<close>: every maximal whitespace run becomes one space.\<close>

function sub_spaces :: "ustring \<Rightarrow> ustring" where
  "sub_spaces [] = []"
| "sub_spaces (c # cs) =
     (if isspace c then 0x20 # sub_spaces (dropWhile isspace cs) else c # sub_spaces cs)"
  by pat_completeness auto
termination
  by (relation "measure length") (auto simp: length_dropWhile_le less_Suc_eq_le)

section \<open>model\_handler.py\<close>

definition normalize :: "ustring \<Rightarrow> ustring" where
  "normalize text = (if text \<noteq> [] then strip (sub_spaces text) else [])"

subsection \<open>Script detection helpers\<close>

definition ARABIC_RE :: "nat \<Rightarrow> bool" where
  "ARABIC_RE c \<longleftrightarrow> 0x0600 \<le> c \<and> c \<le> 0x06FF"

definition LATIN_RE :: "nat \<Rightarrow> bool" where
  "LATIN_RE c \<longleftrightarrow> (0x41 \<le> c \<and> c \<le> 0x5A) \<or> (0x61 \<le> c \<and> c \<le> 0x7A)"

definition CYRILLIC_RE :: "nat \<Rightarrow> bool" where
  "CYRILLIC_RE c \<longleftrightarrow> 0x0400 \<le> c \<and> c \<le> 0x04FF"

definition CJK_RE :: "nat \<Rightarrow> bool" where
  "CJK_RE c \<longleftrightarrow> 0x4E00 \<le> c \<and> c \<le> 0x9FFF"

text \<open>\<open>len(RE.findall(text))\<close> for a one-character class: the number of matching characters.\<close>

definition findall_count :: "(nat \<Rightarrow> bool) \<Rightarrow> ustring \<Rightarrow> nat" where
  "findall_count re text = length (filter re text)"

definition count_leftover_scripts :: "ustring \<Rightarrow> string \<Rightarrow> nat" where
  "count_leftover_scripts text target_lang_code =
     (if text = [] then 999
      else
        let arabic = findall_count ARABIC_RE text;
            latin = findall_count LATIN_RE text;
            cyr = findall_count CYRILLIC_RE text;
            cjk = findall_count CJK_RE text
        in
          if target_lang_code \<in> set [''arb_Arab'', ''pes_Arab'', ''urd_Arab'']
          then latin + cyr + cjk
          else if target_lang_code \<in> set [''eng_Latn'', ''fra_Latn'', ''spa_Latn'', ''deu_Latn'',
                                             ''ita_Latn'', ''por_Latn'', ''tur_Latn'', ''nld_Latn'']
          then arabic + cyr + cjk
          else if target_lang_code \<in> set [''rus_Cyrl'', ''ukr_Cyrl'', ''bul_Cyrl'']
          then latin + arabic + cjk
          else if target_lang_code \<in> set [''zho_Hans'', ''zho_Hant'', ''jpn_Jpan'', ''kor_Hang'']
          then latin + arabic + cyr
          else latin + arabic)"

subsection \<open>Scoring\<close>

text \<open>The sentence terminators \<open>. ! ?\<close> and the Arabic question mark U+061F.\<close>

definition terminators :: "nat list" where
  "terminators = [0x2E, 0x21, 0x3F, 0x061F]"

text \<open>
  \<open>translation[-1]\<close> is evaluated on the normalized translation; on an empty string
  Python raises \<open>IndexError\<close>.
\<close>

definition score_translation :: "ustring \<Rightarrow> ustring \<Rightarrow> string \<Rightarrow> error + real" where
  "score_translation source translation target_lang_code =
     (if translation = [] then Inr (- 999)
      else
        let source' = normalize source;
            translation' = normalize translation;
            ratio = real (length translation') / real (max (length source') 1)
        in
          if translation' = [] then Inl IndexError
          else
            let end_bonus = (if last translation' \<in> set terminators then 0.25 else 0);
                leftover = count_leftover_scripts translation' target_lang_code;
                leftover_penalty = real leftover * 0.02;
                short_penalty = (if ratio < 0.55 then 0.7 else 0)
            in Inr ((ratio + end_bonus) - (leftover_penalty + short_penalty)))"

section \<open>language\_detector.py\<close>

text \<open>
  The pattern \<open>\w\<close> of a Unicode regular expression (the alphanumeric characters of the
  Unicode database and the underscore) is a table of the Python runtime, not of the
  repository: the tokenizer takes it as the parameter \<open>isword\<close>.

  The statistical identifier \<open>langdetect.detect\<close> is external. It is the parameter
  \<open>detect\<close>: \<open>None\<close> when the call raises, \<open>Some code\<close> otherwise. The flag
  \<open>LANGDETECT_AVAILABLE\<close> is the parameter \<open>available\<close>.
\<close>

definition MAP :: "(string \<times> string) list" where
  "MAP =
     [(''ar'', ''arb_Arab''), (''en'', ''eng_Latn''), (''fr'', ''fra_Latn''),
      (''es'', ''spa_Latn''), (''de'', ''deu_Latn''), (''it'', ''ita_Latn''),
      (''pt'', ''por_Latn''), (''ru'', ''rus_Cyrl''), (''tr'', ''tur_Latn''),
      (''nl'', ''nld_Latn''), (''pl'', ''pol_Latn''), (''sv'', ''swe_Latn''),
      (''id'', ''ind_Latn''), (''vi'', ''vie_Latn'')]"

text \<open>Each script pattern is a character class: a list of inclusive code point ranges.\<close>

definition SCRIPT_PATTERNS :: "(string \<times> (nat \<times> nat) list) list" where
  "SCRIPT_PATTERNS =
     [(''arabic'', [(0x0600, 0x06FF), (0x0750, 0x077F), (0x08A0, 0x08FF)]),
      (''cyrillic'', [(0x0400, 0x04FF)]),
      (''greek'', [(0x0370, 0x03FF)]),
      (''hebrew'', [(0x0590, 0x05FF)]),
      (''thai'', [(0x0E00, 0x0E7F)]),
      (''devanagari'', [(0x0900, 0x097F)]),
      (''korean'', [(0xAC00, 0xD7AF)]),
      (''japanese'', [(0x3040, 0x30FF)]),
      (''chinese'', [(0x4E00, 0x9FFF)])]"

definition SCRIPT_DEFAULT :: "(string \<times> string) list" where
  "SCRIPT_DEFAULT =
     [(''arabic'', ''arb_Arab''), (''cyrillic'', ''rus_Cyrl''), (''greek'', ''ell_Grek''),
      (''hebrew'', ''heb_Hebr''), (''thai'', ''tha_Thai''), (''devanagari'', ''hin_Deva''),
      (''korean'', ''kor_Hang''), (''japanese'', ''jpn_Jpan''), (''chinese'', ''zho_Hans'')]"

definition in_class :: "(nat \<times> nat) list \<Rightarrow> nat \<Rightarrow> bool" where
  "in_class ranges c = list_ex (\<lambda>(lo, hi). lo \<le> c \<and> c \<le> hi) ranges"

text \<open>\<open>pat.search(token)\<close> for a pattern \<open>[class]+\<close>: some character is in the class.\<close>

definition pat_search :: "(nat \<times> nat) list \<Rightarrow> ustring \<Rightarrow> bool" where
  "pat_search ranges token = list_ex (in_class ranges) token"

text \<open>
  The loop over \<open>SCRIPT_PATTERNS.items()\<close>, in the order the dictionary was written.
  \<open>SCRIPT_DEFAULT[script]\<close> is a lookup in a constant table under a key of the other
  constant table; fact \<open>SCRIPT_DEFAULT_covers\<close> below shows that it always finds a tag.
\<close>

fun detect_by_script_loop :: "(string \<times> (nat \<times> nat) list) list \<Rightarrow> ustring \<Rightarrow> string option" where
  "detect_by_script_loop [] token = None"
| "detect_by_script_loop ((script, pat) # rest) token =
     (if pat_search pat token then map_of SCRIPT_DEFAULT script
      else detect_by_script_loop rest token)"

definition detect_by_script :: "ustring \<Rightarrow> string option" where
  "detect_by_script token = detect_by_script_loop SCRIPT_PATTERNS token"

text \<open>\<open>re.fullmatch(r"[A-Za-z]+", token)\<close>.\<close>

definition fullmatch_latin :: "ustring \<Rightarrow> bool" where
  "fullmatch_latin token \<longleftrightarrow> token \<noteq> [] \<and> list_all LATIN_RE token"

text \<open>\<open>MAP.get(code, fallback)\<close>.\<close>

definition MAP_get :: "string \<Rightarrow> string \<Rightarrow> string" where
  "MAP_get code fallback = (case map_of MAP code of Some tag \<Rightarrow> tag | None \<Rightarrow> fallback)"

text \<open>
  \<open>detect_language\<close> returns the tag together with the list of tokens it passed to the
  statistical identifier (empty when the identifier was not called).
\<close>

definition detect_language ::
  "bool \<Rightarrow> (ustring \<Rightarrow> string option) \<Rightarrow> ustring \<Rightarrow> string \<Rightarrow> string \<times> ustring list" where
  "detect_language available detect token0 fallback =
     (let token = strip token0 in
      if token = [] then (fallback, [])
      else
        case detect_by_script token of
          Some script_lang \<Rightarrow> (script_lang, [])
        | None \<Rightarrow>
            if fullmatch_latin token \<and> length token \<le> 3 then (fallback, [])
            else if available \<and> length token \<ge> 4 then
              (case detect token of
                 Some code \<Rightarrow> (MAP_get code fallback, [token])
               | None \<Rightarrow> (fallback, [token]))
            else (fallback, []))"

subsection \<open>Tokenizer\<close>

text \<open>
  \<open>re.findall(r"\w+|[^\w\s]+|\s+", text)\<close>: at each position the first alternative whose
  class holds the character matches, and takes the longest run of that class.
\<close>

definition word_class :: "(nat \<Rightarrow> bool) \<Rightarrow> nat \<Rightarrow> bool" where
  "word_class isword c \<longleftrightarrow> isword c"

definition punct_class :: "(nat \<Rightarrow> bool) \<Rightarrow> nat \<Rightarrow> bool" where
  "punct_class isword c \<longleftrightarrow> \<not> isword c \<and> \<not> isspace c"

definition alternative :: "(nat \<Rightarrow> bool) \<Rightarrow> nat \<Rightarrow> (nat \<Rightarrow> bool)" where
  "alternative isword c =
     (if word_class isword c then word_class isword
      else if punct_class isword c then punct_class isword
      else isspace)"

function findall_tokens :: "(nat \<Rightarrow> bool) \<Rightarrow> ustring \<Rightarrow> ustring list" where
  "findall_tokens isword [] = []"
| "findall_tokens isword (c # cs) =
     (c # takeWhile (alternative isword c) cs) #
       findall_tokens isword (dropWhile (alternative isword c) cs)"
  by pat_completeness auto
termination
  by (relation "measure (\<lambda>(isword, text). length text)")
     (auto simp: length_dropWhile_le less_Suc_eq_le)

text \<open>\<open>re.fullmatch(r"[^\w\s]+", tok)\<close>.\<close>

definition fullmatch_punct :: "(nat \<Rightarrow> bool) \<Rightarrow> ustring \<Rightarrow> bool" where
  "fullmatch_punct isword tok \<longleftrightarrow> tok \<noteq> [] \<and> list_all (punct_class isword) tok"

subsection \<open>Word-by-word analysis\<close>

record analysis =
  words :: "(ustring \<times> string) list"
  languages_detected :: "string list"
  languages_count :: nat

text \<open>The loop over the tokens, with the rolling context language as an argument.\<close>

fun tag_tokens ::
  "(nat \<Rightarrow> bool) \<Rightarrow> bool \<Rightarrow> (ustring \<Rightarrow> string option) \<Rightarrow> ustring list \<Rightarrow> string \<Rightarrow>
   (ustring \<times> string) list" where
  "tag_tokens isword available detect [] context_lang = []"
| "tag_tokens isword available detect (tok # toks) context_lang =
     (if str_isspace tok then tag_tokens isword available detect toks context_lang
      else if fullmatch_punct isword tok
      then (tok, ''punct'') # tag_tokens isword available detect toks context_lang
      else
        let lang = fst (detect_language available detect tok context_lang)
        in (tok, lang) # tag_tokens isword available detect toks lang)"

text \<open>
  \<open>Counter(langs)\<close>: a dictionary from each element to its number of occurrences, whose
  keys stay in the order of their first insertion.
\<close>

fun counter_add :: "'a \<Rightarrow> ('a \<times> nat) list \<Rightarrow> ('a \<times> nat) list" where
  "counter_add x [] = [(x, 1)]"
| "counter_add x ((k, n) # rest) =
     (if k = x then (k, n + 1) # rest else (k, n) # counter_add x rest)"

definition Counter :: "'a list \<Rightarrow> ('a \<times> nat) list" where
  "Counter xs = foldl (\<lambda>counts x. counter_add x counts) [] xs"

definition analyze_words ::
  "(nat \<Rightarrow> bool) \<Rightarrow> bool \<Rightarrow> (ustring \<Rightarrow> string option) \<Rightarrow> ustring \<Rightarrow> analysis" where
  "analyze_words isword available detect text =
     (if text = [] \<or> strip text = []
      then \<lparr>words = [], languages_detected = [], languages_count = 0\<rparr>
      else
        let tokens = findall_tokens isword text;
            words = tag_tokens isword available detect tokens ''eng_Latn'';
            langs = map snd (filter (\<lambda>(tok, lang). lang \<noteq> ''punct'') words);
            counts = Counter langs
        in \<lparr>words = words, languages_detected = map fst counts,
            languages_count = length counts\<rparr>)"

section \<open>Selection of the best translation\<close>

text \<open>
  The translation engine (tokenizer, model and decoder) is external. It is the parameter
  \<open>engine\<close>, called with the text, the declared source tag and the target tag, and
  answers with the decoded string, or \<open>None\<close> when the call raises. Every function that
  calls the engine also returns the list of calls made, in order.
\<close>

type_synonym engine = "ustring \<Rightarrow> string \<Rightarrow> string \<Rightarrow> ustring option"

type_synonym engine_call = "ustring \<times> string \<times> string"

type_synonym candidate = "ustring \<times> real \<times> string"

record selection =
  translation :: ustring
  analysis :: "analysis option"
  best_src :: "string option"
  best_score :: "real option"

text \<open>\<open>_translate_with_src\<close>: the decoded output, stripped.\<close>

definition translate_with_src ::
  "engine \<Rightarrow> ustring \<Rightarrow> string \<Rightarrow> string \<Rightarrow> engine_call list \<Rightarrow>
   (error + ustring) \<times> engine_call list" where
  "translate_with_src engine text src_lang tgt_lang calls =
     (case engine text src_lang tgt_lang of
        None \<Rightarrow> (Inl EngineFailure, calls @ [(text, src_lang, tgt_lang)])
      | Some decoded \<Rightarrow> (Inr (strip decoded), calls @ [(text, src_lang, tgt_lang)]))"

text \<open>The candidate list built by the three conditional appends.\<close>

definition candidates :: "string list \<Rightarrow> string list" where
  "candidates detected =
     (let c0 = [];
          c1 = (if ''arb_Arab'' \<in> set detected then c0 @ [''arb_Arab''] else c0);
          c2 = c1 @ [''eng_Latn''];
          c3 = (if ''fra_Latn'' \<in> set detected then c2 @ [''fra_Latn'']
                else if ''spa_Latn'' \<in> set detected then c2 @ [''spa_Latn'']
                else c2)
      in c3)"

text \<open>\<open>list(dict.fromkeys(xs))\<close>: the distinct elements, in the order of first insertion.\<close>

definition dict_fromkeys :: "'a list \<Rightarrow> 'a list" where
  "dict_fromkeys xs = foldl (\<lambda>keys k. if k \<in> set keys then keys else keys @ [k]) [] xs"

text \<open>The hypotheses the loop iterates over.\<close>

definition hypotheses :: "string list \<Rightarrow> string list" where
  "hypotheses detected = dict_fromkeys (candidates detected)"

text \<open>
  The loop that translates and scores with every hypothesis; an exception of the engine
  or of the scorer ends it.
\<close>

fun translate_outputs ::
  "engine \<Rightarrow> ustring \<Rightarrow> string \<Rightarrow> string list \<Rightarrow> engine_call list \<Rightarrow>
   (error + candidate list) \<times> engine_call list" where
  "translate_outputs engine text tgt [] calls = (Inr [], calls)"
| "translate_outputs engine text tgt (src # srcs) calls =
     (case translate_with_src engine text src tgt calls of
        (Inl e, calls') \<Rightarrow> (Inl e, calls')
      | (Inr out, calls') \<Rightarrow>
          (case score_translation text out tgt of
             Inl e \<Rightarrow> (Inl e, calls')
           | Inr sc \<Rightarrow>
               (case translate_outputs engine text tgt srcs calls' of
                  (Inl e, calls'') \<Rightarrow> (Inl e, calls'')
                | (Inr outputs, calls'') \<Rightarrow> (Inr ((out, sc, src) # outputs), calls''))))"

text \<open>
  Python's \<open>max(xs, key=f)\<close>: \<open>ValueError\<close> on an empty list; otherwise the running
  maximum is replaced only by an element whose key is strictly greater.
\<close>

fun max_from :: "('a \<Rightarrow> real) \<Rightarrow> 'a \<Rightarrow> 'a list \<Rightarrow> 'a" where
  "max_from key best [] = best"
| "max_from key best (x # xs) = max_from key (if key x > key best then x else best) xs"

fun py_max :: "('a \<Rightarrow> real) \<Rightarrow> 'a list \<Rightarrow> error + 'a" where
  "py_max key [] = Inl ValueError"
| "py_max key (x # xs) = Inr (max_from key x xs)"

text \<open>\<open>round(x, 3)\<close>, on the real number: to the nearest thousandth, ties to even.\<close>

definition round_half_even :: "real \<Rightarrow> int" where
  "round_half_even x =
     (let f = \<lfloor>x\<rfloor>; d = x - of_int f
      in if d < 1 / 2 then f else if d > 1 / 2 then f + 1 else if even f then f else f + 1)"

definition round3 :: "real \<Rightarrow> real" where
  "round3 x = of_int (round_half_even (x * 1000)) / 1000"

definition score_key :: "candidate \<Rightarrow> real" where
  "score_key x = fst (snd x)"

definition translate ::
  "(nat \<Rightarrow> bool) \<Rightarrow> bool \<Rightarrow> (ustring \<Rightarrow> string option) \<Rightarrow> engine \<Rightarrow> ustring \<Rightarrow> string \<Rightarrow>
   (error + selection) \<times> engine_call list" where
  "translate isword available detect engine text0 target_lang_code =
     (let text = normalize text0 in
      if text = []
      then (Inr \<lparr>translation = [], analysis = None, best_src = None, best_score = None\<rparr>, [])
      else
        let an = analyze_words isword available detect text;
            detected = languages_detected an
        in
          case translate_outputs engine text target_lang_code (hypotheses detected) [] of
            (Inl e, calls) \<Rightarrow> (Inl e, calls)
          | (Inr outputs, calls) \<Rightarrow>
              (case py_max score_key outputs of
                 Inl e \<Rightarrow> (Inl e, calls)
               | Inr (best_translation, best_sc, best_source) \<Rightarrow>
                   (Inr \<lparr>translation = best_translation, analysis = Some an,
                         best_src = Some best_source, best_score = Some (round3 best_sc)\<rparr>,
                    calls)))"

section \<open>Sample collaborators\<close>

text \<open>
  Concrete collaborators, used only to evaluate the functions above on examples.
  \<open>basic_word\<close> is \<open>\w\<close> restricted to ASCII and to the Arabic letters U+0621 to U+064A.
\<close>

definition basic_word :: "nat \<Rightarrow> bool" where
  "basic_word c \<longleftrightarrow>
     (0x30 \<le> c \<and> c \<le> 0x39) \<or> (0x41 \<le> c \<and> c \<le> 0x5A) \<or> c = 0x5F \<or>
     (0x61 \<le> c \<and> c \<le> 0x7A) \<or> (0x0621 \<le> c \<and> c \<le> 0x064A)"

text \<open>An identifier that raises on every token, one that answers French for the token
  \<open>monde\<close> only, and one that answers French for every token.\<close>

definition no_detect :: "ustring \<Rightarrow> string option" where
  "no_detect token = None"

definition french_detect :: "ustring \<Rightarrow> string option" where
  "french_detect token = (if token = ustr ''monde'' then Some ''fr'' else None)"

definition always_french :: "ustring \<Rightarrow> string option" where
  "always_french token = Some ''fr''"

text \<open>An engine that answers the empty string, one that answers whitespace, and one whose
  two answers have the same score.\<close>

definition empty_engine :: engine where
  "empty_engine text src_lang tgt_lang = Some []"

definition blank_engine :: engine where
  "blank_engine text src_lang tgt_lang = Some [0x20, 0x0A]"


section \<open>Evaluation on concrete inputs\<close>

text \<open>The definitions that evaluation on a concrete input unfolds.\<close>

lemmas eval_text = ustr_def normalize_def strip_def isspace_def

lemmas eval_score = score_translation_def count_leftover_scripts_def findall_count_def
  terminators_def ARABIC_RE_def LATIN_RE_def CYRILLIC_RE_def CJK_RE_def Let_def

lemmas eval_detect = detect_language_def detect_by_script_def SCRIPT_PATTERNS_def SCRIPT_DEFAULT_def
  pat_search_def in_class_def fullmatch_latin_def MAP_get_def MAP_def

lemmas eval_analyze = analyze_words_def alternative_def word_class_def punct_class_def
  str_isspace_def fullmatch_punct_def Counter_def basic_word_def

lemmas eval_translate = translate_def hypotheses_def candidates_def dict_fromkeys_def
  translate_with_src_def score_key_def round3_def round_half_even_def

section \<open>Whitespace, stripping and normalization\<close>

lemma filter_dropWhile_isspace:
  "filter (\<lambda>c. \<not> isspace c) (dropWhile isspace xs) = filter (\<lambda>c. \<not> isspace c) xs"
  by (induction xs) auto

lemma list_all_isspace_filter: "list_all isspace s \<longleftrightarrow> filter (\<lambda>c. \<not> isspace c) s = []"
  by (induction s) auto

lemma filter_strip: "filter (\<lambda>c. \<not> isspace c) (strip s) = filter (\<lambda>c. \<not> isspace c) s"
  unfolding strip_def by (simp add: filter_dropWhile_isspace rev_filter [symmetric])

lemma strip_eq_Nil_iff: "strip s = [] \<longleftrightarrow> list_all isspace s"
proof
  assume "strip s = []"
  then have "filter (\<lambda>c. \<not> isspace c) (strip s) = []" by simp
  then show "list_all isspace s" by (simp add: filter_strip list_all_isspace_filter)
next
  assume "list_all isspace s"
  then show "strip s = []" by (auto simp: strip_def list_all_iff dest: set_dropWhileD)
qed

lemma filter_sub_spaces:
  "filter (\<lambda>c. \<not> isspace c) (sub_spaces s) = filter (\<lambda>c. \<not> isspace c) s"
proof (induction s rule: sub_spaces.induct)
  case 1
  then show ?case by simp
next
  case (2 c cs)
  have sp: "isspace 0x20" by (simp add: isspace_def)
  note dw = filter_dropWhile_isspace [of cs]
  show ?case
  proof (cases "isspace c")
    case True
    with 2 sp dw show ?thesis by simp
  next
    case False
    with 2 show ?thesis by simp
  qed
qed

text \<open>A text normalizes to the empty string exactly when it holds nothing but whitespace.\<close>

lemma normalize_eq_Nil_iff: "normalize s = [] \<longleftrightarrow> list_all isspace s"
proof (cases "s = []")
  case True
  then show ?thesis by (simp add: normalize_def)
next
  case False
  then have "normalize s = [] \<longleftrightarrow> list_all isspace (sub_spaces s)"
    by (simp add: normalize_def strip_eq_Nil_iff)
  also have "\<dots> \<longleftrightarrow> list_all isspace s"
    by (simp add: list_all_isspace_filter filter_sub_spaces)
  finally show ?thesis .
qed



section \<open>The source hypotheses\<close>

text \<open>
  Claim C1. For every list of detected languages, the hypothesis list that the selection
  step iterates over has between 1 and 3 entries and no duplicates. \<open>arb_Arab\<close> is first
  whenever it was detected (and is present only then), \<open>eng_Latn\<close> is always present,
  \<open>fra_Latn\<close> is present exactly when French was detected, \<open>spa_Latn\<close> exactly when
  Spanish was detected and French was not; the two are never both present.
\<close>

theorem hypotheses_shape:
  "1 \<le> length (hypotheses d) \<and> length (hypotheses d) \<le> 3 \<and> distinct (hypotheses d) \<and>
   (''arb_Arab'' \<in> set d \<longrightarrow> hd (hypotheses d) = ''arb_Arab'') \<and>
   (''arb_Arab'' \<in> set (hypotheses d) \<longleftrightarrow> ''arb_Arab'' \<in> set d) \<and>
   ''eng_Latn'' \<in> set (hypotheses d) \<and>
   (''fra_Latn'' \<in> set (hypotheses d) \<longleftrightarrow> ''fra_Latn'' \<in> set d) \<and>
   (''spa_Latn'' \<in> set (hypotheses d) \<longleftrightarrow> ''spa_Latn'' \<in> set d \<and> ''fra_Latn'' \<notin> set d) \<and>
   \<not> (''fra_Latn'' \<in> set (hypotheses d) \<and> ''spa_Latn'' \<in> set (hypotheses d))"
  by (simp add: hypotheses_def candidates_def dict_fromkeys_def Let_def)

theorem hypotheses_shape_witness:
  "''arb_Arab'' \<in> set [''spa_Latn'', ''arb_Arab''] \<and>
   hd (hypotheses [''spa_Latn'', ''arb_Arab'']) = ''arb_Arab'' \<and>
   length (hypotheses [''spa_Latn'', ''arb_Arab'']) = 3 \<and>
   distinct (hypotheses [''spa_Latn'', ''arb_Arab'']) \<and>
   ''spa_Latn'' \<in> set (hypotheses [''spa_Latn'', ''arb_Arab'']) \<and>
   ''fra_Latn'' \<notin> set (hypotheses [''spa_Latn'', ''arb_Arab''])"
  using hypotheses_shape [of "[''spa_Latn'', ''arb_Arab'']"]
  by (simp add: hypotheses_def candidates_def dict_fromkeys_def Let_def)

section \<open>The scorer\<close>






text \<open>
  Claim C10 says that the scorer returns a number for every pair of strings, whitespace-only
  translations included. The code does not: for every translation that is not empty and
  holds only whitespace, \<open>score_translation\<close> raises \<open>IndexError\<close>, whatever the source
  and the target are.
\<close>

theorem score_translation_whitespace_raises:
  assumes "trn \<noteq> []" and "list_all isspace trn"
  shows "score_translation source trn tgt = Inl IndexError"
  using assms by (simp add: score_translation_def Let_def normalize_eq_Nil_iff)

theorem score_translation_whitespace_raises_witness:
  "[0x09, 0x20, 0x0A] \<noteq> ([] :: ustring) \<and> list_all isspace [0x09, 0x20, 0x0A] \<and>
   score_translation (ustr ''Hello'') [0x09, 0x20, 0x0A] ''arb_Arab'' = Inl IndexError"
  using score_translation_whitespace_raises [of "[0x09, 0x20, 0x0A]" "ustr ''Hello''" "''arb_Arab''"]
  by (simp add: isspace_def)







section \<open>The word tagger\<close>

text \<open>Every script of \<open>SCRIPT_PATTERNS\<close> has a default tag: the lookup never fails.\<close>

lemma SCRIPT_DEFAULT_covers:
  "list_all (\<lambda>(script, pat). map_of SCRIPT_DEFAULT script \<noteq> None) SCRIPT_PATTERNS"
  by (simp add: SCRIPT_PATTERNS_def SCRIPT_DEFAULT_def)

lemma detect_by_script_not_punct: "detect_by_script token \<noteq> Some ''punct''"
  by (simp add: detect_by_script_def SCRIPT_PATTERNS_def SCRIPT_DEFAULT_def)

lemma MAP_get_cases: "MAP_get code fallback = fallback \<or> MAP_get code fallback \<in> snd ` set MAP"
  by (auto simp: MAP_get_def split: option.splits dest: map_of_SomeD intro: rev_image_eqI)

lemma MAP_get_not_punct: "fallback \<noteq> ''punct'' \<Longrightarrow> MAP_get code fallback \<noteq> ''punct''"
  using MAP_get_cases [of code fallback] by (auto simp: MAP_def)

lemma detect_language_not_punct:
  "fallback \<noteq> ''punct'' \<Longrightarrow> fst (detect_language available detect token fallback) \<noteq> ''punct''"
  using detect_by_script_not_punct
  by (auto simp: detect_language_def Let_def MAP_get_not_punct split: option.splits)

lemma detect_language_queries:
  "snd (detect_language available detect token fallback) =
     (if available \<and> detect_by_script (strip token) = None \<and> 4 \<le> length (strip token)
      then [strip token] else [])"
  by (auto simp: detect_language_def Let_def fullmatch_latin_def split: option.splits)

lemma detect_language_failure:
  assumes "detect_by_script (strip token) = None"
    and "\<not> available \<or> detect (strip token) = None \<or>
         (\<exists>code. detect (strip token) = Some code \<and> map_of MAP code = None)"
  shows "fst (detect_language available detect token fallback) = fallback"
  using assms by (auto simp: detect_language_def Let_def MAP_get_def split: option.splits)

text \<open>
  Claim C3 says that the statistical identifier is queried only for a Latin-alphabet token
  of length at least 4, and that a token that is not Latin-alphabet and matches no
  recognized script gets the context language without a query. The code tests the length
  only (fact \<open>detect_language_queries\<close>). The token \<open>2024\<close> is not Latin-alphabet and
  matches no script, yet it is passed to the identifier, whether the identifier raises or
  answers; when it answers \<open>fr\<close>, the tag is \<open>fra_Latn\<close> and not the context language
  \<open>eng_Latn\<close>.
\<close>

theorem detect_language_digits:
  "\<not> fullmatch_latin (ustr ''2024'') \<and> detect_by_script (ustr ''2024'') = None \<and>
   detect_language True no_detect (ustr ''2024'') ''eng_Latn'' = (''eng_Latn'', [ustr ''2024'']) \<and>
   detect_language True always_french (ustr ''2024'') ''eng_Latn'' = (''fra_Latn'', [ustr ''2024''])"
  by (simp add: eval_detect LATIN_RE_def ustr_def strip_def isspace_def
      no_detect_def always_french_def)

section \<open>The analyzer\<close>

lemma map_fst_counter_add:
  "map fst (counter_add x cs) = (if x \<in> set (map fst cs) then map fst cs else map fst cs @ [x])"
proof (induction cs)
  case Nil
  then show ?case by simp
next
  case (Cons c cs)
  obtain k n where c: "c = (k, n)" by (cases c)
  show ?case
  proof (cases "k = x")
    case True
    with c show ?thesis by simp
  next
    case False
    with c Cons show ?thesis by (cases "x \<in> set (map fst cs)") simp_all
  qed
qed

lemma keys_Counter_foldl:
  "map fst (foldl (\<lambda>counts x. counter_add x counts) cs xs) =
     foldl (\<lambda>keys k. if k \<in> set keys then keys else keys @ [k]) (map fst cs) xs"
proof (induction xs arbitrary: cs)
  case Nil
  then show ?case by simp
next
  case (Cons x xs)
  show ?case
    using Cons [of "counter_add x cs"] map_fst_counter_add [of x cs] by simp
qed

lemma keys_Counter: "map fst (Counter xs) = dict_fromkeys xs"
  using keys_Counter_foldl [of "[]" xs] by (simp add: Counter_def dict_fromkeys_def)

lemma dict_fromkeys_first_occurrence: "dict_fromkeys xs = rev (remdups (rev xs))"
proof (induction xs rule: rev_induct)
  case Nil
  then show ?case by (simp add: dict_fromkeys_def)
next
  case (snoc x xs)
  have "dict_fromkeys (xs @ [x]) =
      (if x \<in> set (dict_fromkeys xs) then dict_fromkeys xs else dict_fromkeys xs @ [x])"
    by (simp add: dict_fromkeys_def)
  with snoc show ?case by simp
qed

lemma tag_tokens_punct:
  assumes "ctx \<noteq> ''punct''" and "(tok, lang) \<in> set (tag_tokens isword available detect toks ctx)"
  shows "lang = ''punct'' \<longleftrightarrow> fullmatch_punct isword tok"
  using assms
proof (induction toks arbitrary: ctx)
  case Nil
  then show ?case by simp
next
  case (Cons t ts)
  show ?case
  proof (cases "str_isspace t")
    case True
    with Cons show ?thesis by simp
  next
    case notsp: False
    show ?thesis
    proof (cases "fullmatch_punct isword t")
      case True
      with notsp Cons.prems Cons.IH [of ctx] show ?thesis by auto
    next
      case False
      define l where "l = fst (detect_language available detect t ctx)"
      have l: "l \<noteq> ''punct''"
        unfolding l_def using Cons.prems(1) by (rule detect_language_not_punct)
      from False notsp Cons.prems(2)
      have "(tok, lang) = (t, l) \<or> (tok, lang) \<in> set (tag_tokens isword available detect ts l)"
        by (simp add: l_def Let_def)
      then show ?thesis
        using False l Cons.IH [OF l] by auto
    qed
  qed
qed

text \<open>
  Claim C9. For every input text: a token of the analysis output carries the punctuation
  marker exactly when it is a punctuation token, so punctuation is never tagged with a
  LanguageTag and a word never with the marker; the marker is not in the detected-language
  list; that list holds the tags of the non-punctuation words in the order of their first
  occurrence, without duplicates; and \<open>languages_count\<close> is the size of that set.
\<close>

theorem analyze_words_punctuation:
  "(\<forall>(tok, lang) \<in> set (words (analyze_words isword available detect text)).
       lang = ''punct'' \<longleftrightarrow> fullmatch_punct isword tok) \<and>
   ''punct'' \<notin> set (languages_detected (analyze_words isword available detect text)) \<and>
   languages_detected (analyze_words isword available detect text) =
     rev (remdups (rev (map snd (filter (\<lambda>(tok, lang). \<not> fullmatch_punct isword tok)
        (words (analyze_words isword available detect text)))))) \<and>
   distinct (languages_detected (analyze_words isword available detect text)) \<and>
   languages_count (analyze_words isword available detect text) =
     card (set (languages_detected (analyze_words isword available detect text)))"
proof (cases "text = [] \<or> strip text = []")
  case True
  then show ?thesis by (auto simp: analyze_words_def)
next
  case False
  define ws where "ws = tag_tokens isword available detect (findall_tokens isword text) ''eng_Latn''"
  define ls where "ls = map snd (filter (\<lambda>(tok, lang). lang \<noteq> ''punct'') ws)"
  have a: "analyze_words isword available detect text =
      \<lparr>words = ws, languages_detected = map fst (Counter ls), languages_count = length (Counter ls)\<rparr>"
    using False by (simp add: analyze_words_def ws_def ls_def Let_def)
  have tag: "\<And>tok lang. (tok, lang) \<in> set ws \<Longrightarrow> lang = ''punct'' \<longleftrightarrow> fullmatch_punct isword tok"
    unfolding ws_def by (rule tag_tokens_punct) simp_all
  have flt: "filter (\<lambda>(tok, lang). lang \<noteq> ''punct'') ws
           = filter (\<lambda>(tok, lang). \<not> fullmatch_punct isword tok) ws"
    by (rule filter_cong) (auto dest: tag)
  have keys: "map fst (Counter ls) = rev (remdups (rev ls))"
    by (simp add: keys_Counter dict_fromkeys_first_occurrence)
  have dist: "distinct (map fst (Counter ls))"
    by (simp add: keys)
  have np: "''punct'' \<notin> set ls"
    by (auto simp: ls_def)
  have len: "length (Counter ls) = card (set (map fst (Counter ls)))"
    using distinct_card [OF dist] by simp
  show ?thesis
    unfolding a using tag keys dist np len flt by (auto simp: ls_def)
qed

theorem analyze_words_punctuation_witness:
  "words (analyze_words basic_word True french_detect (ustr ''Hi, monde!''))
     = [(ustr ''Hi'', ''eng_Latn''), (ustr '','', ''punct''),
        (ustr ''monde'', ''fra_Latn''), (ustr ''!'', ''punct'')] \<and>
   fullmatch_punct basic_word (ustr '','') \<and> fullmatch_punct basic_word (ustr ''!'') \<and>
   \<not> fullmatch_punct basic_word (ustr ''Hi'') \<and> \<not> fullmatch_punct basic_word (ustr ''monde'') \<and>
   languages_detected (analyze_words basic_word True french_detect (ustr ''Hi, monde!''))
     = [''eng_Latn'', ''fra_Latn''] \<and>
   languages_count (analyze_words basic_word True french_detect (ustr ''Hi, monde!'')) = 2"
  using analyze_words_punctuation [of basic_word True french_detect "ustr ''Hi, monde!''"]
  by (simp add: eval_text eval_detect eval_analyze french_detect_def Let_def LATIN_RE_def)

text \<open>
  Claim C8. For every input that is empty or holds only whitespace, the analysis has no
  words, no detected language and count 0, and the selection returns the empty translation
  (with no analysis) without any call of the translation engine; neither raises.
\<close>

theorem blank_input_empty_result:
  assumes "list_all isspace raw"
  shows "analyze_words isword available detect raw
      = \<lparr>words = [], languages_detected = [], languages_count = 0\<rparr>
    \<and> translate isword available detect engine raw tgt
      = (Inr \<lparr>translation = [], analysis = None, best_src = None, best_score = None\<rparr>, [])"
proof -
  from assms have "strip raw = []" by (simp add: strip_eq_Nil_iff)
  moreover from assms have "normalize raw = []" by (simp add: normalize_eq_Nil_iff)
  ultimately show ?thesis by (simp add: analyze_words_def translate_def)
qed

theorem blank_input_empty_result_witness:
  "list_all isspace [0x20, 0x09, 0xA0, 0x0A] \<and>
   analyze_words basic_word True no_detect [0x20, 0x09, 0xA0, 0x0A]
     = \<lparr>words = [], languages_detected = [], languages_count = 0\<rparr> \<and>
   translate basic_word True no_detect empty_engine [0x20, 0x09, 0xA0, 0x0A] ''eng_Latn''
     = (Inr \<lparr>translation = [], analysis = None, best_src = None, best_score = None\<rparr>, [])"
  using blank_input_empty_result
    [of "[0x20, 0x09, 0xA0, 0x0A]" basic_word True no_detect empty_engine "''eng_Latn''"]
  by (simp add: isspace_def)

section \<open>The selection\<close>



lemma hypotheses_not_Nil: "hypotheses d \<noteq> []"
  by (simp add: hypotheses_def candidates_def dict_fromkeys_def Let_def)

lemma translate_outputs_all_empty:
  assumes "\<forall>src \<in> set srcs. \<exists>decoded. engine text src tgt = Some decoded \<and> strip decoded = []"
  shows "translate_outputs engine text tgt srcs calls
    = (Inr (map (\<lambda>src. ([], - 999, src)) srcs), calls @ map (\<lambda>src. (text, src, tgt)) srcs)"
  using assms
proof (induction srcs arbitrary: calls)
  case Nil
  then show ?case by simp
next
  case (Cons src srcs)
  from Cons.prems obtain decoded where
    dec: "engine text src tgt = Some decoded" "strip decoded = []" by auto
  from Cons.prems have rest: "\<forall>s \<in> set srcs. \<exists>decoded. engine text s tgt = Some decoded \<and> strip decoded = []"
    by simp
  have w: "translate_with_src engine text src tgt calls = (Inr [], calls @ [(text, src, tgt)])"
    using dec by (simp add: translate_with_src_def)
  have s: "score_translation text [] tgt = Inr (- 999)"
    by (simp add: score_translation_def)
  show ?case
    using w s Cons.IH [OF rest, of "calls @ [(text, src, tgt)]"] by simp
qed

lemma max_from_first: "\<forall>x \<in> set xs. key x \<le> key b \<Longrightarrow> max_from key b xs = b"
  by (induction xs) auto

lemma round3_sentinel: "round3 (- 999) = - 999"
  by (simp add: round3_def round_half_even_def)



text \<open>
  Claim C5, as stated: when every candidate translation is empty, the selection surfaces a
  failure and does not return an ordinary result with an empty translation. It fails: with
  an engine that answers the empty string, the selection of \<open>hi\<close> returns an ordinary
  result whose translation is empty and whose score is the sentinel.
\<close>

theorem translate_all_empty_counterexample:
  "translate basic_word True no_detect empty_engine (ustr ''hi'') ''eng_Latn''
     = (Inr \<lparr>translation = [],
              analysis = Some \<lparr>words = [(ustr ''hi'', ''eng_Latn'')],
                               languages_detected = [''eng_Latn''], languages_count = 1\<rparr>,
              best_src = Some ''eng_Latn'', best_score = Some (- 999)\<rparr>,
        [(ustr ''hi'', ''eng_Latn'', ''eng_Latn'')])"
  by (simp add: eval_text eval_detect eval_analyze eval_translate eval_score
      no_detect_def empty_engine_def)

text \<open>
  Claim C5, amended. When the normalized text is not empty and every candidate translation
  is empty (the engine's answer to every hypothesis is empty or whitespace), the selection
  raises nothing: it returns an ordinary result with the empty translation, the analysis,
  the first hypothesis as source and the sentinel -999 as score. The result differs from
  the result for an empty input, which has no analysis, source or score.
\<close>

theorem translate_all_candidates_empty:
  assumes norm: "text = normalize raw" and ne: "text \<noteq> []"
    and an: "an = analyze_words isword available detect text"
    and hyps: "hyps = hypotheses (languages_detected an)"
    and empty: "\<forall>src \<in> set hyps. \<exists>decoded. engine text src tgt = Some decoded \<and> strip decoded = []"
  shows "translate isword available detect engine raw tgt
      = (Inr \<lparr>translation = [], analysis = Some an, best_src = Some (hd hyps),
               best_score = Some (- 999)\<rparr>,
         map (\<lambda>src. (text, src, tgt)) hyps)
    \<and> fst (translate isword available detect engine raw tgt)
        \<noteq> fst (translate isword available detect engine [] tgt)"
proof -
  have "hyps \<noteq> []" unfolding hyps by (rule hypotheses_not_Nil)
  then obtain h hs where h: "hyps = h # hs" by (cases hyps) simp_all
  have out: "translate_outputs engine text tgt hyps []
      = (Inr (map (\<lambda>src. ([], - 999, src)) hyps), map (\<lambda>src. (text, src, tgt)) hyps)"
    using translate_outputs_all_empty [of hyps engine "text" tgt "[]"] empty by simp
  have mx: "max_from score_key ([], - 999, h) (map (\<lambda>src. ([], - 999, src)) hs) = ([], - 999, h)"
    by (rule max_from_first) (simp add: score_key_def)
  have res: "translate isword available detect engine raw tgt
      = (Inr \<lparr>translation = [], analysis = Some an, best_src = Some (hd hyps),
               best_score = Some (- 999)\<rparr>,
         map (\<lambda>src. (text, src, tgt)) hyps)"
    using ne out mx round3_sentinel
    by (simp add: translate_def Let_def norm [symmetric] an [symmetric] hyps [symmetric] h)
  have "translate isword available detect engine [] tgt
      = (Inr \<lparr>translation = [], analysis = None, best_src = None, best_score = None\<rparr>, [])"
    by (simp add: translate_def normalize_def)
  with res show ?thesis by simp
qed

theorem translate_all_candidates_empty_witness:
  "normalize (ustr '' hi '' @ [0x0639, 0x0627]) = ustr ''hi '' @ [0x0639, 0x0627] \<and>
   hypotheses (languages_detected
      (analyze_words basic_word True no_detect (ustr ''hi '' @ [0x0639, 0x0627])))
     = [''arb_Arab'', ''eng_Latn''] \<and>
   blank_engine (ustr ''hi '' @ [0x0639, 0x0627]) ''arb_Arab'' ''fra_Latn'' = Some [0x20, 0x0A] \<and>
   blank_engine (ustr ''hi '' @ [0x0639, 0x0627]) ''eng_Latn'' ''fra_Latn'' = Some [0x20, 0x0A] \<and>
   strip [0x20, 0x0A] = [] \<and>
   translate basic_word True no_detect blank_engine (ustr '' hi '' @ [0x0639, 0x0627]) ''fra_Latn''
     = (Inr \<lparr>translation = [],
              analysis = Some \<lparr>words = [(ustr ''hi'', ''eng_Latn''), ([0x0639, 0x0627], ''arb_Arab'')],
                               languages_detected = [''eng_Latn'', ''arb_Arab''],
                               languages_count = 2\<rparr>,
              best_src = Some ''arb_Arab'', best_score = Some (- 999)\<rparr>,
        [(ustr ''hi '' @ [0x0639, 0x0627], ''arb_Arab'', ''fra_Latn''),
         (ustr ''hi '' @ [0x0639, 0x0627], ''eng_Latn'', ''fra_Latn'')])"
  using translate_all_candidates_empty [OF refl _ refl refl,
      where raw = "ustr '' hi '' @ [0x0639, 0x0627]" and isword = basic_word and available = True
        and detect = no_detect and engine = blank_engine and tgt = "''fra_Latn''"]
  by (simp add: eval_text eval_detect eval_analyze eval_translate eval_score
      no_detect_def blank_engine_def)

end
